theory Spec2Isabelle
  imports Complex_Main
begin

section \<open>Python values\<close>

text \<open>
  The value of \<^verbatim>\<open>response.json()\<close> and of a tool argument: a dict keeps its insertion
  order, so it is an association list (keys distinct in a parsed value; a lookup takes the
  first entry). Non-finite floats are not represented.
\<close>

datatype json =
    JNull
  | JBool bool
  | JInt int
  | JFloat real
  | JStr string
  | JArr "json list"
  | JObj "(string \<times> json) list"

type_synonym pydict = "(string \<times> json) list"

text \<open>Python's truth value of an object, as \<^verbatim>\<open>if not x\<close> tests it.\<close>

fun truthy :: "json \<Rightarrow> bool" where
  "truthy JNull = False"
| "truthy (JBool b) = b"
| "truthy (JInt i) = (i \<noteq> 0)"
| "truthy (JFloat r) = (r \<noteq> 0)"
| "truthy (JStr s) = (s \<noteq> [])"
| "truthy (JArr xs) = (xs \<noteq> [])"
| "truthy (JObj d) = (d \<noteq> [])"

fun type_name :: "json \<Rightarrow> string" where
  "type_name JNull = ''NoneType''"
| "type_name (JBool b) = ''bool''"
| "type_name (JInt i) = ''int''"
| "type_name (JFloat r) = ''float''"
| "type_name (JStr s) = ''str''"
| "type_name (JArr xs) = ''list''"
| "type_name (JObj d) = ''dict''"

section \<open>Exceptions\<close>

text \<open>
  Every exception the two programs can meet, with the text of \<^verbatim>\<open>str(e)\<close>. The first
  three come from \<^verbatim>\<open>session.get\<close>, \<^verbatim>\<open>raise_for_status\<close> and \<^verbatim>\<open>response.json\<close>; their
  text is the library's. A \<^verbatim>\<open>KeyError\<close> prints the repr of its key.
\<close>

datatype exn =
    ConnectionError string
  | Timeout string
  | HTTPError string
  | JSONDecodeError string
  | KeyError string
  | AttributeError string
  | TypeError string
  | ValueError string

definition quoted :: "string \<Rightarrow> string" where
  "quoted s = [CHR 0x27] @ s @ [CHR 0x27]"

fun message :: "exn \<Rightarrow> string" where
  "message (ConnectionError m) = m"
| "message (Timeout m) = m"
| "message (HTTPError m) = m"
| "message (JSONDecodeError m) = m"
| "message (KeyError k) = quoted k"
| "message (AttributeError m) = m"
| "message (TypeError m) = m"
| "message (ValueError m) = m"

definition no_attribute :: "json \<Rightarrow> string \<Rightarrow> exn" where
  "no_attribute v attr =
     AttributeError (quoted (type_name v) @ '' object has no attribute '' @ quoted attr)"

text \<open>Sequencing of two steps of which the first may raise.\<close>

definition bind :: "exn + 'a \<Rightarrow> ('a \<Rightarrow> exn + 'b) \<Rightarrow> exn + 'b" where
  "bind m f = (case m of Inl e \<Rightarrow> Inl e | Inr x \<Rightarrow> f x)"

text \<open>A loop that appends \<open>f x\<close> for each \<open>x\<close> and stops at the first exception.\<close>

fun traverse :: "('a \<Rightarrow> exn + 'b) \<Rightarrow> 'a list \<Rightarrow> exn + 'b list" where
  "traverse f [] = Inr []"
| "traverse f (x # xs) =
     (case f x of
        Inl e \<Rightarrow> Inl e
      | Inr y \<Rightarrow> (case traverse f xs of Inl e \<Rightarrow> Inl e | Inr ys \<Rightarrow> Inr (y # ys)))"

section \<open>Operations of Python objects\<close>

definition dict_get :: "pydict \<Rightarrow> string \<Rightarrow> json \<Rightarrow> json" where
  "dict_get d k dflt = (case map_of d k of None \<Rightarrow> dflt | Some v \<Rightarrow> v)"

text \<open>\<^verbatim>\<open>x.get(k, dflt)\<close>: only a dict has the method.\<close>

definition py_get :: "json \<Rightarrow> string \<Rightarrow> json \<Rightarrow> exn + json" where
  "py_get x k dflt =
     (case x of JObj d \<Rightarrow> Inr (dict_get d k dflt) | _ \<Rightarrow> Inl (no_attribute x ''get''))"

text \<open>\<^verbatim>\<open>x[k]\<close> with a string key.\<close>

definition py_getitem :: "json \<Rightarrow> string \<Rightarrow> exn + json" where
  "py_getitem x k =
     (case x of
        JObj d \<Rightarrow> (case map_of d k of None \<Rightarrow> Inl (KeyError k) | Some v \<Rightarrow> Inr v)
      | JArr xs \<Rightarrow> Inl (TypeError ''list indices must be integers or slices, not str'')
      | JStr s \<Rightarrow> Inl (TypeError (''string indices must be integers, not '' @ quoted ''str''))
      | _ \<Rightarrow> Inl (TypeError (quoted (type_name x) @ '' object is not subscriptable'')))"

text \<open>
  \<^verbatim>\<open>for item in x[:n]\<close>: the items the loop visits. A list gives its first \<open>n\<close> elements,
  a string its first \<open>n\<close> characters; a dict cannot be sliced (the text is that of
  Python up to 3.11), and the other types have no subscript.
\<close>

definition py_slice_items :: "json \<Rightarrow> nat \<Rightarrow> exn + json list" where
  "py_slice_items x n =
     (case x of
        JArr xs \<Rightarrow> Inr (take n xs)
      | JStr s \<Rightarrow> Inr (map (\<lambda>c. JStr [c]) (take n s))
      | JObj d \<Rightarrow> Inl (TypeError (''unhashable type: '' @ quoted ''slice''))
      | _ \<Rightarrow> Inl (TypeError (quoted (type_name x) @ '' object is not subscriptable'')))"

text \<open>\<^verbatim>\<open>x.items()\<close>.\<close>

definition py_items :: "json \<Rightarrow> exn + pydict" where
  "py_items x = (case x of JObj d \<Rightarrow> Inr d | _ \<Rightarrow> Inl (no_attribute x ''items''))"

subsection \<open>Strings\<close>

text \<open>
  A Python string is modelled as a \<^typ>\<open>string\<close> whose characters are the code points
  0 to 255; text with a code point above 255 is outside the type. On these code points
  \<^verbatim>\<open>str.lower\<close> changes A to Z and the capital letters C0 to DE (D7, the
  multiplication sign, is no letter); \<^verbatim>\<open>str.upper\<close> changes a to z and the small
  letters E0 to FE (F7, the division sign, is no letter), and turns the sharp s (DF) into
  the two letters SS. The upper case of the micro sign (B5) and of y with diaeresis (FF)
  lies above 255, so the model leaves it unspecified. \<^verbatim>\<open>str.strip\<close> removes the
  white space: tab to carriage return, the four separators 1C to 1F, the space, the next
  line control (85) and the no-break space (A0).
\<close>

definition lower_case_letters :: string where
  "lower_case_letters =
     ''abcdefghijklmnopqrstuvwxyz'' @
     [CHR 0xE0, CHR 0xE1, CHR 0xE2, CHR 0xE3, CHR 0xE4, CHR 0xE5, CHR 0xE6, CHR 0xE7,
      CHR 0xE8, CHR 0xE9, CHR 0xEA, CHR 0xEB, CHR 0xEC, CHR 0xED, CHR 0xEE, CHR 0xEF,
      CHR 0xF0, CHR 0xF1, CHR 0xF2, CHR 0xF3, CHR 0xF4, CHR 0xF5, CHR 0xF6, CHR 0xF8,
      CHR 0xF9, CHR 0xFA, CHR 0xFB, CHR 0xFC, CHR 0xFD, CHR 0xFE]"

definition upper_case_letters :: string where
  "upper_case_letters =
     ''ABCDEFGHIJKLMNOPQRSTUVWXYZ'' @
     [CHR 0xC0, CHR 0xC1, CHR 0xC2, CHR 0xC3, CHR 0xC4, CHR 0xC5, CHR 0xC6, CHR 0xC7,
      CHR 0xC8, CHR 0xC9, CHR 0xCA, CHR 0xCB, CHR 0xCC, CHR 0xCD, CHR 0xCE, CHR 0xCF,
      CHR 0xD0, CHR 0xD1, CHR 0xD2, CHR 0xD3, CHR 0xD4, CHR 0xD5, CHR 0xD6, CHR 0xD8,
      CHR 0xD9, CHR 0xDA, CHR 0xDB, CHR 0xDC, CHR 0xDD, CHR 0xDE]"

definition upper_char :: "char \<Rightarrow> string" where
  "upper_char c =
     (if c = CHR 0xDF then ''SS''
      else if c = CHR 0xB5 \<or> c = CHR 0xFF then undefined
      else (case map_of (zip lower_case_letters upper_case_letters) c of
              None \<Rightarrow> [c]
            | Some u \<Rightarrow> [u]))"

definition lower_char :: "char \<Rightarrow> char" where
  "lower_char c =
     (case map_of (zip upper_case_letters lower_case_letters) c of
        None \<Rightarrow> c
      | Some l \<Rightarrow> l)"

definition upper :: "string \<Rightarrow> string" where
  "upper s = concat (map upper_char s)"

definition lower :: "string \<Rightarrow> string" where
  "lower s = map lower_char s"

definition is_space :: "char \<Rightarrow> bool" where
  "is_space c =
     (c \<in> set [CHR 0x09, CHR 0x0A, CHR 0x0B, CHR 0x0C, CHR 0x0D,
               CHR 0x1C, CHR 0x1D, CHR 0x1E, CHR 0x1F, CHR 0x20, CHR 0x85, CHR 0xA0])"

definition strip :: "string \<Rightarrow> string" where
  "strip s = rev (dropWhile is_space (rev (dropWhile is_space s)))"

text \<open>\<^verbatim>\<open>x.upper()\<close> on a value of unknown type.\<close>

definition py_upper :: "json \<Rightarrow> exn + string" where
  "py_upper x = (case x of JStr s \<Rightarrow> Inr (upper s) | _ \<Rightarrow> Inl (no_attribute x ''upper''))"

text \<open>\<^verbatim>\<open>t in s\<close> for two strings: \<open>t\<close> occurs in \<open>s\<close> as a contiguous piece.\<close>

fun starts_with :: "string \<Rightarrow> string \<Rightarrow> bool" where
  "starts_with s [] = True"
| "starts_with [] (c # t) = False"
| "starts_with (x # s) (c # t) = (x = c \<and> starts_with s t)"

fun py_in :: "string \<Rightarrow> string \<Rightarrow> bool" where
  "py_in t [] = (t = [])"
| "py_in t (x # s) = (starts_with (x # s) t \<or> py_in t s)"

text \<open>
  The text an f-string puts in for a value. The tool schemas declare every argument that
  is interpolated a string, which stands for itself; how Python prints the other values
  is left unspecified.
\<close>

fun py_str :: "json \<Rightarrow> string" where
  "py_str (JStr s) = s"

section \<open>The environment of a call\<close>

text \<open>
  A reading of \<^verbatim>\<open>datetime.now()\<close>: the proleptic Gregorian ordinal of the day and the
  microsecond within the day.
\<close>

record datetime =
  day_ordinal :: int
  microsecond_of_day :: nat

text \<open>\<^verbatim>\<open>dt - timedelta(days=n)\<close>.\<close>

definition minus_days :: "datetime \<Rightarrow> int \<Rightarrow> datetime" where
  "minus_days dt n = dt\<lparr>day_ordinal := day_ordinal dt - n\<rparr>"

text \<open>
  \<^verbatim>\<open>dt.strftime("%Y-%m-%d")\<close> prints the day only; the calendar arithmetic is the
  library's and is the parameter \<open>ymd\<close>, from ordinals to text.
\<close>

definition strftime :: "(int \<Rightarrow> string) \<Rightarrow> datetime \<Rightarrow> string" where
  "strftime ymd dt = ymd (day_ordinal dt)"

text \<open>
  The clock of one call: the values of the first and of the second evaluation of
  \<^verbatim>\<open>datetime.now()\<close>, in program order.
\<close>

type_synonym clock = "datetime \<times> datetime"

text \<open>
  One call of \<^verbatim>\<open>session.get(url, params=params, timeout=...)\<close>. The session, with the
  token in its own parameters, the provider and the two lines that follow
  (\<^verbatim>\<open>raise_for_status\<close>, \<^verbatim>\<open>json\<close>) are the function \<open>session_get\<close> that every
  operation takes: from the request to the exception raised or the decoded payload.
\<close>

record request =
  url :: string
  params :: pydict
  timeout :: "nat option"

type_synonym provider = "request \<Rightarrow> exn + json"

definition FINNHUB_BASE_URL :: string where
  "FINNHUB_BASE_URL = ''https://finnhub.io/api/v1''"

text \<open>
  A text returned to the caller: \<open>Dumps j\<close> is \<^verbatim>\<open>json.dumps(j, indent=2)\<close>, a function of
  \<open>j\<close>; \<open>Plain s\<close> is the string \<open>s\<close>.
\<close>

datatype answer = Dumps json | Plain string

section \<open>Reshaping shared by the two servers\<close>

definition press_release_entry :: "json \<Rightarrow> exn + json" where
  "press_release_entry release =
     bind (py_get release ''datetime'' (JStr [])) (\<lambda>d.
     bind (py_get release ''headline'' (JStr [])) (\<lambda>h.
     bind (py_get release ''summary'' (JStr [])) (\<lambda>s.
     bind (py_get release ''url'' (JStr [])) (\<lambda>u.
       Inr (JObj [(''date'', d), (''headline'', h), (''summary'', s), (''url'', u)])))))"

definition insider_transaction_entry :: "json \<Rightarrow> exn + json" where
  "insider_transaction_entry transaction =
     bind (py_get transaction ''transactionDate'' (JStr [])) (\<lambda>d.
     bind (py_get transaction ''name'' (JStr [])) (\<lambda>n.
     bind (py_get transaction ''share'' (JInt 0)) (\<lambda>s.
     bind (py_get transaction ''change'' (JInt 0)) (\<lambda>c.
     bind (py_get transaction ''filingDate'' (JStr [])) (\<lambda>f.
     bind (py_get transaction ''transactionCode'' (JStr [])) (\<lambda>tc.
     bind (py_get transaction ''transactionPrice'' (JInt 0)) (\<lambda>tp.
       Inr (JObj [(''date'', d), (''name'', n), (''share'', s), (''change'', c),
                  (''filingDate'', f), (''transactionCode'', tc),
                  (''transactionPrice'', tp)]))))))))"

text \<open>\<^verbatim>\<open>any(term in k.lower() for term in terms)\<close>.\<close>

definition any_term_in :: "string list \<Rightarrow> string \<Rightarrow> bool" where
  "any_term_in terms k = list_ex (\<lambda>t. py_in t (lower k)) terms"

text \<open>The dict comprehension \<^verbatim>\<open>{k: v for k, v in metrics.items() if any(...)}\<close>.\<close>

definition keep_keys :: "string list \<Rightarrow> json \<Rightarrow> exn + json" where
  "keep_keys terms metrics =
     bind (py_items metrics) (\<lambda>items.
       Inr (JObj (filter (\<lambda>kv. any_term_in terms (fst kv)) items)))"

definition filter_metrics :: "json \<Rightarrow> json \<Rightarrow> exn + json" where
  "filter_metrics metric_type metrics =
     (if metric_type = JStr ''price'' then
        keep_keys [''price'', ''52week'', ''beta''] metrics
      else if metric_type = JStr ''valuation'' then
        keep_keys [''pe'', ''pb'', ''ps'', ''ev'', ''ratio''] metrics
      else if metric_type = JStr ''margin'' then
        keep_keys [''margin'', ''roe'', ''roa'', ''roic''] metrics
      else Inr metrics)"

section \<open>The interactive server (app.py)\<close>

text \<open>
  Module start: \<^verbatim>\<open>os.getenv("FINNHUB_API_KEY", "")\<close>, the session that carries the token
  when there is one, and the warning the page shows when there is none. \<open>getenv\<close> is
  the process environment.
\<close>

record app_module =
  app_API_KEY :: string
  app_session_params :: pydict
  app_warning :: bool

definition app_module_init :: "(string \<Rightarrow> string option) \<Rightarrow> app_module" where
  "app_module_init getenv =
     (let key = (case getenv ''FINNHUB_API_KEY'' of None \<Rightarrow> [] | Some v \<Rightarrow> v)
      in \<lparr>app_API_KEY = key,
          app_session_params = (if key \<noteq> [] then [(''token'', JStr key)] else []),
          app_warning = (key = [])\<rparr>)"

definition error_answer :: "string \<Rightarrow> answer" where
  "error_answer msg = Dumps (JObj [(''error'', JStr msg)])"

text \<open>\<^verbatim>\<open>except Exception as e: return json.dumps({"error": str(e)}, indent=2)\<close>.\<close>

definition catch :: "exn + answer \<Rightarrow> answer" where
  "catch r = (case r of Inl e \<Rightarrow> error_answer (message e) | Inr a \<Rightarrow> a)"

text \<open>
  The default date range: \<open>to_date\<close> is looked at first, and each empty date reads the
  clock once.
\<close>

definition app_default_dates ::
  "int \<Rightarrow> (int \<Rightarrow> string) \<Rightarrow> clock \<Rightarrow> string \<Rightarrow> string \<Rightarrow> string \<times> string" where
  "app_default_dates days ymd clock from_date to_date =
     (let to_date' = (if to_date = [] then strftime ymd (fst clock) else to_date);
          now = (if to_date = [] then snd clock else fst clock);
          from_date' =
            (if from_date = [] then strftime ymd (minus_days now days) else from_date)
      in (from_date', to_date'))"

text \<open>The body of each \<^verbatim>\<open>try\<close> after \<^verbatim>\<open>data = response.json()\<close>.\<close>

definition app_press_releases_body :: "string \<Rightarrow> string \<Rightarrow> string \<Rightarrow> json \<Rightarrow> exn + answer" where
  "app_press_releases_body symbol from_date to_date data =
     bind (py_get data ''majorDevelopment'' JNull) (\<lambda>found.
       if \<not> truthy found then
         Inr (Dumps (JObj [(''symbol'', JStr symbol),
           (''message'', JStr (''No press releases found for '' @ symbol @ '' between ''
              @ from_date @ '' and '' @ to_date))]))
       else
         bind (py_getitem data ''majorDevelopment'') (\<lambda>developments.
         bind (py_slice_items developments 10) (\<lambda>items.
         bind (traverse press_release_entry items) (\<lambda>releases.
           Inr (Dumps (JObj [(''symbol'', JStr symbol),
             (''date_range'', JStr (from_date @ '' to '' @ to_date)),
             (''press_releases'', JArr releases)]))))))"

definition app_insider_transactions_body ::
  "string \<Rightarrow> string \<Rightarrow> string \<Rightarrow> json \<Rightarrow> exn + answer" where
  "app_insider_transactions_body symbol from_date to_date data =
     bind (py_get data ''data'' JNull) (\<lambda>found.
       if \<not> truthy found then
         Inr (Dumps (JObj [(''symbol'', JStr symbol),
           (''message'', JStr (''No insider transactions found for '' @ symbol @ '' between ''
              @ from_date @ '' and '' @ to_date))]))
       else
         bind (py_getitem data ''data'') (\<lambda>rows.
         bind (py_slice_items rows 20) (\<lambda>items.
         bind (traverse insider_transaction_entry items) (\<lambda>transactions.
           Inr (Dumps (JObj [(''symbol'', JStr symbol),
             (''date_range'', JStr (from_date @ '' to '' @ to_date)),
             (''insider_transactions'', JArr transactions)]))))))"

definition app_basic_financials_body :: "string \<Rightarrow> string \<Rightarrow> json \<Rightarrow> exn + answer" where
  "app_basic_financials_body symbol metric_type data =
     bind (py_get data ''metric'' JNull) (\<lambda>found.
       if \<not> truthy found then
         Inr (Dumps (JObj [(''symbol'', JStr symbol),
           (''message'', JStr (''No financial metrics found for '' @ symbol))]))
       else
         bind (py_getitem data ''metric'') (\<lambda>metrics.
         bind (filter_metrics (JStr metric_type) metrics) (\<lambda>filtered_metrics.
         bind (py_get data ''series'' (JObj [])) (\<lambda>series.
           Inr (Dumps (JObj [(''symbol'', JStr symbol),
             (''metric_type'', JStr metric_type),
             (''metrics'', filtered_metrics),
             (''series'', series)]))))))"

definition app_company_profile_body :: "string \<Rightarrow> json \<Rightarrow> exn + answer" where
  "app_company_profile_body symbol data =
     (if \<not> truthy data then
        Inr (Dumps (JObj [(''symbol'', JStr symbol),
          (''message'', JStr (''No company profile found for '' @ symbol))]))
      else Inr (Dumps data))"

definition app_earnings_surprises_body :: "string \<Rightarrow> json \<Rightarrow> exn + answer" where
  "app_earnings_surprises_body symbol data =
     (if \<not> truthy data then
        Inr (Dumps (JObj [(''symbol'', JStr symbol),
          (''message'', JStr (''No earnings data found for '' @ symbol))]))
      else Inr (Dumps (JObj [(''symbol'', JStr symbol), (''earnings_surprises'', data)])))"

text \<open>
  The five operations. Each returns the requests it has issued, in order, and the text it
  returns. \<open>API_KEY\<close> is the module's global.
\<close>

definition app_get_press_releases ::
  "string \<Rightarrow> (int \<Rightarrow> string) \<Rightarrow> clock \<Rightarrow> provider \<Rightarrow> string \<Rightarrow> string \<Rightarrow> string
     \<Rightarrow> request list \<times> answer" where
  "app_get_press_releases API_KEY ymd clock session_get symbol0 from_date0 to_date0 =
     (if API_KEY = [] then ([], error_answer ''FINNHUB_API_KEY not configured'')
      else
        let symbol = strip (upper symbol0) in
        if symbol = [] then ([], error_answer ''Symbol is required'')
        else
          let dates = app_default_dates 30 ymd clock from_date0 to_date0;
              from_date = fst dates;
              to_date = snd dates;
              req = \<lparr>url = FINNHUB_BASE_URL @ ''/press-releases'',
                     params = [(''symbol'', JStr symbol), (''from'', JStr from_date),
                               (''to'', JStr to_date)],
                     timeout = Some 10\<rparr>
          in ([req],
              catch (bind (session_get req)
                       (app_press_releases_body symbol from_date to_date))))"

definition app_get_insider_transactions ::
  "string \<Rightarrow> (int \<Rightarrow> string) \<Rightarrow> clock \<Rightarrow> provider \<Rightarrow> string \<Rightarrow> string \<Rightarrow> string
     \<Rightarrow> request list \<times> answer" where
  "app_get_insider_transactions API_KEY ymd clock session_get symbol0 from_date0 to_date0 =
     (if API_KEY = [] then ([], error_answer ''FINNHUB_API_KEY not configured'')
      else
        let symbol = strip (upper symbol0) in
        if symbol = [] then ([], error_answer ''Symbol is required'')
        else
          let dates = app_default_dates 90 ymd clock from_date0 to_date0;
              from_date = fst dates;
              to_date = snd dates;
              req = \<lparr>url = FINNHUB_BASE_URL @ ''/stock/insider-transactions'',
                     params = [(''symbol'', JStr symbol), (''from'', JStr from_date),
                               (''to'', JStr to_date)],
                     timeout = Some 10\<rparr>
          in ([req],
              catch (bind (session_get req)
                       (app_insider_transactions_body symbol from_date to_date))))"

definition app_get_basic_financials ::
  "string \<Rightarrow> provider \<Rightarrow> string \<Rightarrow> string \<Rightarrow> request list \<times> answer" where
  "app_get_basic_financials API_KEY session_get symbol0 metric_type =
     (if API_KEY = [] then ([], error_answer ''FINNHUB_API_KEY not configured'')
      else
        let symbol = strip (upper symbol0) in
        if symbol = [] then ([], error_answer ''Symbol is required'')
        else
          let req = \<lparr>url = FINNHUB_BASE_URL @ ''/stock/metric'',
                     params = [(''symbol'', JStr symbol), (''metric'', JStr ''all'')],
                     timeout = Some 10\<rparr>
          in ([req],
              catch (bind (session_get req) (app_basic_financials_body symbol metric_type))))"

definition app_get_company_profile ::
  "string \<Rightarrow> provider \<Rightarrow> string \<Rightarrow> request list \<times> answer" where
  "app_get_company_profile API_KEY session_get symbol0 =
     (if API_KEY = [] then ([], error_answer ''FINNHUB_API_KEY not configured'')
      else
        let symbol = strip (upper symbol0) in
        if symbol = [] then ([], error_answer ''Symbol is required'')
        else
          let req = \<lparr>url = FINNHUB_BASE_URL @ ''/stock/profile2'',
                     params = [(''symbol'', JStr symbol)],
                     timeout = Some 10\<rparr>
          in ([req], catch (bind (session_get req) (app_company_profile_body symbol))))"

definition app_get_earnings_surprises ::
  "string \<Rightarrow> provider \<Rightarrow> string \<Rightarrow> int \<Rightarrow> request list \<times> answer" where
  "app_get_earnings_surprises API_KEY session_get symbol0 limit =
     (if API_KEY = [] then ([], error_answer ''FINNHUB_API_KEY not configured'')
      else
        let symbol = strip (upper symbol0) in
        if symbol = [] then ([], error_answer ''Symbol is required'')
        else
          let req = \<lparr>url = FINNHUB_BASE_URL @ ''/stock/earnings'',
                     params = [(''symbol'', JStr symbol), (''limit'', JInt limit)],
                     timeout = Some 10\<rparr>
          in ([req], catch (bind (session_get req) (app_earnings_surprises_body symbol))))"

section \<open>The tool-invocation server (finnhub_mcp_server)\<close>

text \<open>
  Module start: \<^verbatim>\<open>os.getenv("FINNHUB_API_KEY")\<close> after \<^verbatim>\<open>load_dotenv()\<close>, so
  \<open>getenv\<close> is the environment with the entries of the \<^verbatim>\<open>.env\<close> file added. When the
  module body raises, no server object and no session exist and \<^verbatim>\<open>main\<close> is never
  reached.
\<close>

record mcp_module =
  mcp_API_KEY :: string
  mcp_server_name :: string
  mcp_session_params :: pydict

definition mcp_module_init :: "(string \<Rightarrow> string option) \<Rightarrow> exn + mcp_module" where
  "mcp_module_init getenv =
     (let key = (case getenv ''FINNHUB_API_KEY'' of None \<Rightarrow> [] | Some v \<Rightarrow> v)
      in if key = [] then Inl (ValueError ''FINNHUB_API_KEY environment variable is required'')
         else Inr \<lparr>mcp_API_KEY = key,
                   mcp_server_name = ''finnhub-mcp-server'',
                   mcp_session_params = [(''token'', JStr key)]\<rparr>)"

datatype text_content = TextContent string answer

text \<open>\<^verbatim>\<open>args["symbol"].upper()\<close>.\<close>

definition mcp_symbol :: "pydict \<Rightarrow> exn + string" where
  "mcp_symbol args = bind (py_getitem (JObj args) ''symbol'') py_upper"

text \<open>The lines of each operation after \<^verbatim>\<open>data = response.json()\<close>.\<close>

definition mcp_press_releases_body ::
  "string \<Rightarrow> json \<Rightarrow> json \<Rightarrow> json \<Rightarrow> exn + text_content list" where
  "mcp_press_releases_body symbol from_date to_date data =
     bind (py_get data ''majorDevelopment'' JNull) (\<lambda>found.
       if \<not> truthy found then
         Inr [TextContent ''text''
           (Plain (''No press releases found for '' @ symbol @ '' between ''
              @ py_str from_date @ '' and '' @ py_str to_date))]
       else
         bind (py_getitem data ''majorDevelopment'') (\<lambda>developments.
         bind (py_slice_items developments 10) (\<lambda>items.
         bind (traverse press_release_entry items) (\<lambda>releases.
           Inr [TextContent ''text'' (Dumps (JObj [(''symbol'', JStr symbol),
             (''date_range'', JStr (py_str from_date @ '' to '' @ py_str to_date)),
             (''press_releases'', JArr releases)]))]))))"

definition mcp_insider_transactions_body ::
  "string \<Rightarrow> json \<Rightarrow> json \<Rightarrow> json \<Rightarrow> exn + text_content list" where
  "mcp_insider_transactions_body symbol from_date to_date data =
     bind (py_get data ''data'' JNull) (\<lambda>found.
       if \<not> truthy found then
         Inr [TextContent ''text''
           (Plain (''No insider transactions found for '' @ symbol @ '' between ''
              @ py_str from_date @ '' and '' @ py_str to_date))]
       else
         bind (py_getitem data ''data'') (\<lambda>rows.
         bind (py_slice_items rows 20) (\<lambda>items.
         bind (traverse insider_transaction_entry items) (\<lambda>transactions.
           Inr [TextContent ''text'' (Dumps (JObj [(''symbol'', JStr symbol),
             (''date_range'', JStr (py_str from_date @ '' to '' @ py_str to_date)),
             (''insider_transactions'', JArr transactions)]))]))))"

definition mcp_basic_financials_body ::
  "string \<Rightarrow> json \<Rightarrow> json \<Rightarrow> exn + text_content list" where
  "mcp_basic_financials_body symbol metric_type data =
     bind (py_get data ''metric'' JNull) (\<lambda>found.
       if \<not> truthy found then
         Inr [TextContent ''text'' (Plain (''No financial metrics found for '' @ symbol))]
       else
         bind (py_getitem data ''metric'') (\<lambda>metrics.
         bind (filter_metrics metric_type metrics) (\<lambda>filtered_metrics.
         bind (py_get data ''series'' (JObj [])) (\<lambda>series.
           Inr [TextContent ''text'' (Dumps (JObj [(''symbol'', JStr symbol),
             (''metric_type'', metric_type),
             (''metrics'', filtered_metrics),
             (''series'', series)]))]))))"

definition mcp_company_profile_body :: "string \<Rightarrow> json \<Rightarrow> exn + text_content list" where
  "mcp_company_profile_body symbol data =
     (if \<not> truthy data then
        Inr [TextContent ''text'' (Plain (''No company profile found for '' @ symbol))]
      else Inr [TextContent ''text'' (Dumps data)])"

definition mcp_earnings_surprises_body :: "string \<Rightarrow> json \<Rightarrow> exn + text_content list" where
  "mcp_earnings_surprises_body symbol data =
     (if \<not> truthy data then
        Inr [TextContent ''text'' (Plain (''No earnings data found for '' @ symbol))]
      else Inr [TextContent ''text''
             (Dumps (JObj [(''symbol'', JStr symbol), (''earnings_surprises'', data)]))])"

text \<open>
  The five operations: the requests issued, and the exception raised or the content
  returned. Both defaults of \<^verbatim>\<open>args.get\<close> are evaluated on every call, the one of
  \<open>to_date\<close> first.
\<close>

definition mcp_get_press_releases ::
  "(int \<Rightarrow> string) \<Rightarrow> clock \<Rightarrow> provider \<Rightarrow> pydict
     \<Rightarrow> request list \<times> (exn + text_content list)" where
  "mcp_get_press_releases ymd clock session_get args =
     (case mcp_symbol args of
        Inl e \<Rightarrow> ([], Inl e)
      | Inr symbol \<Rightarrow>
          let to_date = dict_get args ''to_date'' (JStr (strftime ymd (fst clock)));
              from_date =
                dict_get args ''from_date'' (JStr (strftime ymd (minus_days (snd clock) 30)));
              req = \<lparr>url = FINNHUB_BASE_URL @ ''/press-releases'',
                     params = [(''symbol'', JStr symbol), (''from'', from_date),
                               (''to'', to_date)],
                     timeout = None\<rparr>
          in ([req],
              bind (session_get req) (mcp_press_releases_body symbol from_date to_date)))"

definition mcp_get_insider_transactions ::
  "(int \<Rightarrow> string) \<Rightarrow> clock \<Rightarrow> provider \<Rightarrow> pydict
     \<Rightarrow> request list \<times> (exn + text_content list)" where
  "mcp_get_insider_transactions ymd clock session_get args =
     (case mcp_symbol args of
        Inl e \<Rightarrow> ([], Inl e)
      | Inr symbol \<Rightarrow>
          let to_date = dict_get args ''to_date'' (JStr (strftime ymd (fst clock)));
              from_date =
                dict_get args ''from_date'' (JStr (strftime ymd (minus_days (snd clock) 90)));
              req = \<lparr>url = FINNHUB_BASE_URL @ ''/stock/insider-transactions'',
                     params = [(''symbol'', JStr symbol), (''from'', from_date),
                               (''to'', to_date)],
                     timeout = None\<rparr>
          in ([req],
              bind (session_get req)
                (mcp_insider_transactions_body symbol from_date to_date)))"

definition mcp_get_basic_financials ::
  "provider \<Rightarrow> pydict \<Rightarrow> request list \<times> (exn + text_content list)" where
  "mcp_get_basic_financials session_get args =
     (case mcp_symbol args of
        Inl e \<Rightarrow> ([], Inl e)
      | Inr symbol \<Rightarrow>
          let metric_type = dict_get args ''metric'' (JStr ''all'');
              req = \<lparr>url = FINNHUB_BASE_URL @ ''/stock/metric'',
                     params = [(''symbol'', JStr symbol), (''metric'', JStr ''all'')],
                     timeout = None\<rparr>
          in ([req], bind (session_get req) (mcp_basic_financials_body symbol metric_type)))"

definition mcp_get_company_profile ::
  "provider \<Rightarrow> pydict \<Rightarrow> request list \<times> (exn + text_content list)" where
  "mcp_get_company_profile session_get args =
     (case mcp_symbol args of
        Inl e \<Rightarrow> ([], Inl e)
      | Inr symbol \<Rightarrow>
          let req = \<lparr>url = FINNHUB_BASE_URL @ ''/stock/profile2'',
                     params = [(''symbol'', JStr symbol)],
                     timeout = None\<rparr>
          in ([req], bind (session_get req) (mcp_company_profile_body symbol)))"

definition mcp_get_earnings_surprises ::
  "provider \<Rightarrow> pydict \<Rightarrow> request list \<times> (exn + text_content list)" where
  "mcp_get_earnings_surprises session_get args =
     (case mcp_symbol args of
        Inl e \<Rightarrow> ([], Inl e)
      | Inr symbol \<Rightarrow>
          let limit = dict_get args ''limit'' (JInt 4);
              req = \<lparr>url = FINNHUB_BASE_URL @ ''/stock/earnings'',
                     params = [(''symbol'', JStr symbol), (''limit'', limit)],
                     timeout = None\<rparr>
          in ([req], bind (session_get req) (mcp_earnings_surprises_body symbol)))"

text \<open>The dispatch of a tool call by name.\<close>

definition handle_call_tool ::
  "(int \<Rightarrow> string) \<Rightarrow> clock \<Rightarrow> provider \<Rightarrow> string \<Rightarrow> pydict
     \<Rightarrow> request list \<times> (exn + text_content list)" where
  "handle_call_tool ymd clock session_get name args =
     (if name = ''get_press_releases'' then mcp_get_press_releases ymd clock session_get args
      else if name = ''get_insider_transactions'' then
        mcp_get_insider_transactions ymd clock session_get args
      else if name = ''get_basic_financials'' then mcp_get_basic_financials session_get args
      else if name = ''get_company_profile'' then mcp_get_company_profile session_get args
      else if name = ''get_earnings_surprises'' then
        mcp_get_earnings_surprises session_get args
      else ([], Inl (ValueError (''Unknown tool: '' @ name))))"

text \<open>The field \<open>k\<close> of the object an answer serialises, when it is one and has it.\<close>

definition answer_field :: "answer \<Rightarrow> string \<Rightarrow> json option" where
  "answer_field a k = (case a of Dumps (JObj d) \<Rightarrow> map_of d k | _ \<Rightarrow> None)"

section \<open>The filter as the specification words it\<close>

text \<open>
  The specification's wording of the metric filter, to compare with \<open>filter_metrics\<close>:
  a key is kept when its lower-cased name contains one of the terms of the category, and
  every key is kept for any other category.
\<close>

definition occurs_in :: "string \<Rightarrow> string \<Rightarrow> bool" where
  "occurs_in t s = (\<exists>p q. s = p @ t @ q)"

definition spec_keeps :: "json \<Rightarrow> string \<Rightarrow> bool" where
  "spec_keeps category key =
     (if category = JStr ''price'' then
        occurs_in ''price'' (lower key) \<or> occurs_in ''52week'' (lower key)
        \<or> occurs_in ''beta'' (lower key)
      else if category = JStr ''valuation'' then
        occurs_in ''pe'' (lower key) \<or> occurs_in ''pb'' (lower key)
        \<or> occurs_in ''ps'' (lower key) \<or> occurs_in ''ev'' (lower key)
        \<or> occurs_in ''ratio'' (lower key)
      else if category = JStr ''margin'' then
        occurs_in ''margin'' (lower key) \<or> occurs_in ''roe'' (lower key)
        \<or> occurs_in ''roa'' (lower key) \<or> occurs_in ''roic'' (lower key)
      else True)"

section \<open>Basic facts\<close>

lemma upper_evals:
  "upper ''aapl'' = ''AAPL''"
  "upper ''AAPL'' = ''AAPL''"
  "upper ''  aapl '' = ''  AAPL ''"
  by (simp_all add: upper_def upper_char_def lower_case_letters_def upper_case_letters_def)

lemma strip_evals:
  "strip ''AAPL'' = ''AAPL''"
  "strip ''  AAPL '' = ''AAPL''"
  by (simp_all add: strip_def is_space_def)

lemma lower_evals:
  "lower ''peRatio'' = ''peratio''"
  "lower ''grossMargin'' = ''grossmargin''"
  "lower ''beta'' = ''beta''"
  "lower ''roeTTM'' = ''roettm''"
  by (simp_all add: lower_def lower_char_def lower_case_letters_def upper_case_letters_def)

lemmas text_evals = upper_evals strip_evals lower_evals

lemma bind_Inl [simp]: "bind (Inl e) f = Inl e"
  by (simp add: bind_def)

lemma bind_Inr [simp]: "bind (Inr x) f = f x"
  by (simp add: bind_def)

lemma py_get_obj [simp]: "py_get (JObj d) k dflt = Inr (dict_get d k dflt)"
  by (simp add: py_get_def)

lemma py_items_obj [simp]: "py_items (JObj d) = Inr d"
  by (simp add: py_items_def)

lemma dict_get_Some [simp]: "map_of d k = Some v \<Longrightarrow> dict_get d k dflt = v"
  by (simp add: dict_get_def)

lemma dict_get_None [simp]: "map_of d k = None \<Longrightarrow> dict_get d k dflt = dflt"
  by (simp add: dict_get_def)

lemma py_getitem_obj [simp]: "map_of d k = Some v \<Longrightarrow> py_getitem (JObj d) k = Inr v"
  by (simp add: py_getitem_def)

lemma starts_with_iff: "starts_with s t \<longleftrightarrow> (\<exists>q. s = t @ q)"
  by (induction s t rule: starts_with.induct) auto

lemma py_in_occurs: "py_in t s \<longleftrightarrow> occurs_in t s"
  unfolding occurs_in_def
proof (induction s)
  case Nil
  then show ?case by auto
next
  case (Cons x s)
  show ?case
  proof
    assume "py_in t (x # s)"
    then consider "starts_with (x # s) t" | "py_in t s" by auto
    then show "\<exists>p q. x # s = p @ t @ q"
    proof cases
      case 1
      then obtain q where "x # s = t @ q" by (auto simp: starts_with_iff)
      then have "x # s = [] @ t @ q" by simp
      then show ?thesis by blast
    next
      case 2
      then obtain p q where "s = p @ t @ q" using Cons.IH by blast
      then have "x # s = (x # p) @ t @ q" by simp
      then show ?thesis by blast
    qed
  next
    assume "\<exists>p q. x # s = p @ t @ q"
    then obtain p q where pq: "x # s = p @ t @ q" by blast
    show "py_in t (x # s)"
    proof (cases p)
      case Nil
      then have "starts_with (x # s) t" using pq by (auto simp: starts_with_iff)
      then show ?thesis by simp
    next
      case (Cons y p')
      then have "s = p' @ t @ q" using pq by simp
      then have "py_in t s" using Cons.IH by blast
      then show ?thesis by simp
    qed
  qed
qed

lemma any_term_in_simps:
  "any_term_in [] k = False"
  "any_term_in (t # ts) k = (occurs_in t (lower k) \<or> any_term_in ts k)"
  by (simp_all add: any_term_in_def py_in_occurs)

lemma filter_metrics_obj:
  "filter_metrics c (JObj d) = Inr (JObj (filter (\<lambda>kv. spec_keeps c (fst kv)) d))"
  by (simp add: filter_metrics_def keep_keys_def spec_keeps_def any_term_in_simps)

lemma app_basic_financials_found:
  assumes "API_KEY \<noteq> []" and "strip (upper symbol) \<noteq> []"
    and "map_of d ''metric'' = Some (JObj m)" and "m \<noteq> []"
  shows "snd (app_get_basic_financials API_KEY (\<lambda>r. Inr (JObj d)) symbol c) =
           Dumps (JObj [(''symbol'', JStr (strip (upper symbol))),
             (''metric_type'', JStr c),
             (''metrics'', JObj (filter (\<lambda>kv. spec_keeps (JStr c) (fst kv)) m)),
             (''series'', dict_get d ''series'' (JObj []))])"
  using assms
  by (simp add: app_get_basic_financials_def Let_def catch_def app_basic_financials_body_def
      filter_metrics_obj)

lemma mcp_basic_financials_found:
  assumes "map_of args ''symbol'' = Some (JStr symbol)"
    and "map_of d ''metric'' = Some (JObj m)" and "m \<noteq> []"
  shows "snd (mcp_get_basic_financials (\<lambda>r. Inr (JObj d)) args) =
           Inr [TextContent ''text'' (Dumps (JObj [(''symbol'', JStr (upper symbol)),
             (''metric_type'', dict_get args ''metric'' (JStr ''all'')),
             (''metrics'', JObj (filter (\<lambda>kv. spec_keeps (dict_get args ''metric'' (JStr ''all'')) (fst kv)) m)),
             (''series'', dict_get d ''series'' (JObj []))]))]"
  using assms
  by (simp add: mcp_get_basic_financials_def mcp_symbol_def py_upper_def Let_def
      mcp_basic_financials_body_def filter_metrics_obj)

lemmas app_ops =
  app_get_press_releases_def app_get_insider_transactions_def app_get_basic_financials_def
  app_get_company_profile_def app_get_earnings_surprises_def

lemmas mcp_ops =
  mcp_get_press_releases_def mcp_get_insider_transactions_def mcp_get_basic_financials_def
  mcp_get_company_profile_def mcp_get_earnings_surprises_def

lemma mcp_symbol_str [simp]:
  "map_of args ''symbol'' = Some (JStr s) \<Longrightarrow> mcp_symbol args = Inr (upper s)"
  by (simp add: mcp_symbol_def py_upper_def)

lemma press_release_entry_obj:
  "press_release_entry (JObj r) =
     Inr (JObj [(''date'', dict_get r ''datetime'' (JStr [])),
                (''headline'', dict_get r ''headline'' (JStr [])),
                (''summary'', dict_get r ''summary'' (JStr [])),
                (''url'', dict_get r ''url'' (JStr []))])"
  by (simp add: press_release_entry_def)

lemma insider_transaction_entry_obj:
  "insider_transaction_entry (JObj r) =
     Inr (JObj [(''date'', dict_get r ''transactionDate'' (JStr [])),
                (''name'', dict_get r ''name'' (JStr [])),
                (''share'', dict_get r ''share'' (JInt 0)),
                (''change'', dict_get r ''change'' (JInt 0)),
                (''filingDate'', dict_get r ''filingDate'' (JStr [])),
                (''transactionCode'', dict_get r ''transactionCode'' (JStr [])),
                (''transactionPrice'', dict_get r ''transactionPrice'' (JInt 0))])"
  by (simp add: insider_transaction_entry_def)

lemma traverse_Inr_iff:
  "traverse f xs = Inr ys \<longleftrightarrow> list_all2 (\<lambda>x y. f x = Inr y) xs ys"
proof (induction xs arbitrary: ys)
  case Nil
  then show ?case by auto
next
  case (Cons x xs)
  show ?case
    by (cases ys) (auto split: sum.splits simp: Cons.IH [symmetric])
qed

lemma app_press_releases_found:
  assumes "API_KEY \<noteq> []" and "strip (upper symbol) \<noteq> []"
    and "map_of d ''majorDevelopment'' = Some (JArr xs)" and "xs \<noteq> []"
    and "traverse press_release_entry (take 10 xs) = Inr rs"
  shows "snd (app_get_press_releases API_KEY ymd clock (\<lambda>r. Inr (JObj d)) symbol from_date
            to_date) =
           Dumps (JObj [(''symbol'', JStr (strip (upper symbol))),
             (''date_range'', JStr (fst (app_default_dates 30 ymd clock from_date to_date)
                @ '' to '' @ snd (app_default_dates 30 ymd clock from_date to_date))),
             (''press_releases'', JArr rs)])"
  using assms
  by (simp add: app_get_press_releases_def Let_def catch_def app_press_releases_body_def
      py_slice_items_def)

lemma app_insider_transactions_found:
  assumes "API_KEY \<noteq> []" and "strip (upper symbol) \<noteq> []"
    and "map_of d ''data'' = Some (JArr ys)" and "ys \<noteq> []"
    and "traverse insider_transaction_entry (take 20 ys) = Inr ts"
  shows "snd (app_get_insider_transactions API_KEY ymd clock (\<lambda>r. Inr (JObj d)) symbol
            from_date to_date) =
           Dumps (JObj [(''symbol'', JStr (strip (upper symbol))),
             (''date_range'', JStr (fst (app_default_dates 90 ymd clock from_date to_date)
                @ '' to '' @ snd (app_default_dates 90 ymd clock from_date to_date))),
             (''insider_transactions'', JArr ts)])"
  using assms
  by (simp add: app_get_insider_transactions_def Let_def catch_def
      app_insider_transactions_body_def py_slice_items_def)

lemma mcp_press_releases_found:
  assumes "map_of args ''symbol'' = Some (JStr symbol)"
    and "map_of d ''majorDevelopment'' = Some (JArr xs)" and "xs \<noteq> []"
    and "traverse press_release_entry (take 10 xs) = Inr rs"
  shows "\<exists>dr. snd (mcp_get_press_releases ymd clock (\<lambda>r. Inr (JObj d)) args) =
           Inr [TextContent ''text'' (Dumps (JObj [(''symbol'', JStr (upper symbol)),
             (''date_range'', JStr dr), (''press_releases'', JArr rs)]))]"
  using assms
  by (simp add: mcp_get_press_releases_def Let_def mcp_press_releases_body_def
      py_slice_items_def)

lemma mcp_insider_transactions_found:
  assumes "map_of args ''symbol'' = Some (JStr symbol)"
    and "map_of d ''data'' = Some (JArr ys)" and "ys \<noteq> []"
    and "traverse insider_transaction_entry (take 20 ys) = Inr ts"
  shows "\<exists>dr. snd (mcp_get_insider_transactions ymd clock (\<lambda>r. Inr (JObj d)) args) =
           Inr [TextContent ''text'' (Dumps (JObj [(''symbol'', JStr (upper symbol)),
             (''date_range'', JStr dr), (''insider_transactions'', JArr ts)]))]"
  using assms
  by (simp add: mcp_get_insider_transactions_def Let_def mcp_insider_transactions_body_def
      py_slice_items_def)

lemma app_no_results:
  assumes "API_KEY \<noteq> []" and "strip (upper symbol) \<noteq> []"
  shows "\<not> truthy (dict_get d ''majorDevelopment'' JNull) \<Longrightarrow>
         snd (app_get_press_releases API_KEY ymd clock (\<lambda>r. Inr (JObj d)) symbol from_date
           to_date)
         = Dumps (JObj [(''symbol'', JStr (strip (upper symbol))),
             (''message'', JStr (''No press releases found for '' @ strip (upper symbol)
                @ '' between '' @ fst (app_default_dates 30 ymd clock from_date to_date)
                @ '' and '' @ snd (app_default_dates 30 ymd clock from_date to_date)))])"
    and "\<not> truthy (dict_get d ''data'' JNull) \<Longrightarrow>
         snd (app_get_insider_transactions API_KEY ymd clock (\<lambda>r. Inr (JObj d)) symbol
           from_date to_date)
         = Dumps (JObj [(''symbol'', JStr (strip (upper symbol))),
             (''message'', JStr (''No insider transactions found for ''
                @ strip (upper symbol)
                @ '' between '' @ fst (app_default_dates 90 ymd clock from_date to_date)
                @ '' and '' @ snd (app_default_dates 90 ymd clock from_date to_date)))])"
    and "\<not> truthy (dict_get d ''metric'' JNull) \<Longrightarrow>
         snd (app_get_basic_financials API_KEY (\<lambda>r. Inr (JObj d)) symbol metric_type)
         = Dumps (JObj [(''symbol'', JStr (strip (upper symbol))),
             (''message'', JStr (''No financial metrics found for ''
                @ strip (upper symbol)))])"
    and "\<not> truthy p \<Longrightarrow>
         snd (app_get_company_profile API_KEY (\<lambda>r. Inr p) symbol)
         = Dumps (JObj [(''symbol'', JStr (strip (upper symbol))),
             (''message'', JStr (''No company profile found for ''
                @ strip (upper symbol)))])"
    and "\<not> truthy p \<Longrightarrow>
         snd (app_get_earnings_surprises API_KEY (\<lambda>r. Inr p) symbol limit)
         = Dumps (JObj [(''symbol'', JStr (strip (upper symbol))),
             (''message'', JStr (''No earnings data found for ''
                @ strip (upper symbol)))])"
  using assms
  by (simp_all add: app_ops Let_def catch_def app_press_releases_body_def
      app_insider_transactions_body_def app_basic_financials_body_def
      app_company_profile_body_def app_earnings_surprises_body_def)

lemma mcp_no_results:
  assumes "map_of args ''symbol'' = Some (JStr symbol)"
  shows "\<not> truthy (dict_get d ''majorDevelopment'' JNull) \<Longrightarrow>
         snd (mcp_get_press_releases ymd clock (\<lambda>r. Inr (JObj d)) args)
         = Inr [TextContent ''text'' (Plain (''No press releases found for '' @ upper symbol
             @ '' between ''
             @ py_str (dict_get args ''from_date''
                 (JStr (strftime ymd (minus_days (snd clock) 30))))
             @ '' and ''
             @ py_str (dict_get args ''to_date'' (JStr (strftime ymd (fst clock))))))]"
    and "\<not> truthy (dict_get d ''data'' JNull) \<Longrightarrow>
         snd (mcp_get_insider_transactions ymd clock (\<lambda>r. Inr (JObj d)) args)
         = Inr [TextContent ''text'' (Plain (''No insider transactions found for ''
             @ upper symbol @ '' between ''
             @ py_str (dict_get args ''from_date''
                 (JStr (strftime ymd (minus_days (snd clock) 90))))
             @ '' and ''
             @ py_str (dict_get args ''to_date'' (JStr (strftime ymd (fst clock))))))]"
    and "\<not> truthy (dict_get d ''metric'' JNull) \<Longrightarrow>
         snd (mcp_get_basic_financials (\<lambda>r. Inr (JObj d)) args)
         = Inr [TextContent ''text''
             (Plain (''No financial metrics found for '' @ upper symbol))]"
    and "\<not> truthy p \<Longrightarrow>
         snd (mcp_get_company_profile (\<lambda>r. Inr p) args)
         = Inr [TextContent ''text''
             (Plain (''No company profile found for '' @ upper symbol))]"
    and "\<not> truthy p \<Longrightarrow>
         snd (mcp_get_earnings_surprises (\<lambda>r. Inr p) args)
         = Inr [TextContent ''text'' (Plain (''No earnings data found for '' @ upper symbol))]"
  using assms
  by (simp_all add: mcp_ops Let_def mcp_press_releases_body_def
      mcp_insider_transactions_body_def mcp_basic_financials_body_def
      mcp_company_profile_body_def mcp_earnings_surprises_body_def)


section \<open>Claims\<close>

text \<open>
  C2. The metric filter of \<open>get_basic_financials\<close>: on a metrics object with the keys
  peRatio, grossMargin, beta and roeTTM the category valuation keeps peRatio, margin
  keeps grossMargin and roeTTM, price keeps beta, and all (like every other category)
  keeps the four. In general a key is kept exactly when the specification's wording keeps
  it, and the result is the field \<open>metrics\<close> of the answer of both servers.
\<close>

theorem metric_filter_by_category:
  assumes "API_KEY \<noteq> []" and "strip (upper symbol) \<noteq> []"
    and "map_of args ''symbol'' = Some (JStr symbol)"
    and "map_of d ''metric'' = Some (JObj m)" and "m \<noteq> []"
  shows "filter_metrics (JStr ''valuation'')
           (JObj [(''peRatio'', v1), (''grossMargin'', v2), (''beta'', v3), (''roeTTM'', v4)])
         = Inr (JObj [(''peRatio'', v1)])
       \<and> filter_metrics (JStr ''margin'')
           (JObj [(''peRatio'', v1), (''grossMargin'', v2), (''beta'', v3), (''roeTTM'', v4)])
         = Inr (JObj [(''grossMargin'', v2), (''roeTTM'', v4)])
       \<and> filter_metrics (JStr ''price'')
           (JObj [(''peRatio'', v1), (''grossMargin'', v2), (''beta'', v3), (''roeTTM'', v4)])
         = Inr (JObj [(''beta'', v3)])
       \<and> filter_metrics (JStr ''all'')
           (JObj [(''peRatio'', v1), (''grossMargin'', v2), (''beta'', v3), (''roeTTM'', v4)])
         = Inr (JObj [(''peRatio'', v1), (''grossMargin'', v2), (''beta'', v3),
                      (''roeTTM'', v4)])
       \<and> (c \<notin> {JStr ''price'', JStr ''valuation'', JStr ''margin''}
            \<longrightarrow> filter_metrics c x = Inr x)
       \<and> filter_metrics c (JObj m) = Inr (JObj (filter (\<lambda>kv. spec_keeps c (fst kv)) m))
       \<and> answer_field (snd (app_get_basic_financials API_KEY (\<lambda>r. Inr (JObj d)) symbol t))
            ''metrics''
         = Some (JObj (filter (\<lambda>kv. spec_keeps (JStr t) (fst kv)) m))
       \<and> snd (mcp_get_basic_financials (\<lambda>r. Inr (JObj d)) args)
         = Inr [TextContent ''text'' (Dumps (JObj [(''symbol'', JStr (upper symbol)),
             (''metric_type'', dict_get args ''metric'' (JStr ''all'')),
             (''metrics'', JObj (filter
                (\<lambda>kv. spec_keeps (dict_get args ''metric'' (JStr ''all'')) (fst kv)) m)),
             (''series'', dict_get d ''series'' (JObj []))]))]"
proof -
  have ex: "filter_metrics (JStr ''valuation'')
           (JObj [(''peRatio'', v1), (''grossMargin'', v2), (''beta'', v3), (''roeTTM'', v4)])
         = Inr (JObj [(''peRatio'', v1)])"
    "filter_metrics (JStr ''margin'')
           (JObj [(''peRatio'', v1), (''grossMargin'', v2), (''beta'', v3), (''roeTTM'', v4)])
         = Inr (JObj [(''grossMargin'', v2), (''roeTTM'', v4)])"
    "filter_metrics (JStr ''price'')
           (JObj [(''peRatio'', v1), (''grossMargin'', v2), (''beta'', v3), (''roeTTM'', v4)])
         = Inr (JObj [(''beta'', v3)])"
    by (simp_all add: filter_metrics_def keep_keys_def any_term_in_def text_evals)
  have other: "c \<notin> {JStr ''price'', JStr ''valuation'', JStr ''margin''}
      \<longrightarrow> filter_metrics c x = Inr x" for x
    by (simp add: filter_metrics_def)
  have all: "filter_metrics (JStr ''all'') y = Inr y" for y
    by (simp add: filter_metrics_def)
  have app: "answer_field (snd (app_get_basic_financials API_KEY (\<lambda>r. Inr (JObj d)) symbol t))
            ''metrics''
         = Some (JObj (filter (\<lambda>kv. spec_keeps (JStr t) (fst kv)) m))"
    using assms by (simp add: app_basic_financials_found answer_field_def)
  have gen: "filter_metrics c (JObj m) = Inr (JObj (filter (\<lambda>kv. spec_keeps c (fst kv)) m))"
    by (rule filter_metrics_obj)
  note mcp = mcp_basic_financials_found [OF assms(3,4,5)]
  show ?thesis
    by (intro conjI ex other all gen app mcp)
qed

theorem metric_filter_by_category_witness:
  "''k'' \<noteq> [] \<and> strip (upper ''aapl'') \<noteq> []
   \<and> map_of [(''symbol'', JStr ''aapl''), (''metric'', JStr ''margin'')] ''symbol''
       = Some (JStr ''aapl'')
   \<and> map_of [(''metric'', JObj [(''peRatio'', JFloat 28.5), (''grossMargin'', JFloat 43.3),
                 (''beta'', JFloat 1.2), (''roeTTM'', JInt 150)])] ''metric''
       = Some (JObj [(''peRatio'', JFloat 28.5), (''grossMargin'', JFloat 43.3),
                 (''beta'', JFloat 1.2), (''roeTTM'', JInt 150)])
   \<and> JStr ''all'' \<notin> {JStr ''price'', JStr ''valuation'', JStr ''margin''}
   \<and> filter_metrics (JStr ''all'') (JArr []) = Inr (JArr [])
   \<and> answer_field (snd (app_get_basic_financials ''k''
        (\<lambda>r. Inr (JObj [(''metric'', JObj [(''peRatio'', JFloat 28.5),
           (''grossMargin'', JFloat 43.3), (''beta'', JFloat 1.2), (''roeTTM'', JInt 150)])]))
        ''aapl'' ''margin'')) ''metrics''
     = Some (JObj [(''grossMargin'', JFloat 43.3), (''roeTTM'', JInt 150)])"
  using metric_filter_by_category [where API_KEY = "''k''" and symbol = "''aapl''"
      and args = "[(''symbol'', JStr ''aapl''), (''metric'', JStr ''margin'')]"
      and d = "[(''metric'', JObj [(''peRatio'', JFloat 28.5), (''grossMargin'', JFloat 43.3),
                 (''beta'', JFloat 1.2), (''roeTTM'', JInt 150)])]"
      and m = "[(''peRatio'', JFloat 28.5), (''grossMargin'', JFloat 43.3),
                 (''beta'', JFloat 1.2), (''roeTTM'', JInt 150)]"
      and c = "JStr ''all''" and x = "JArr []" and t = "''margin''"]
  by (simp add: text_evals spec_keeps_def py_in_occurs [symmetric])

text \<open>
  C3. Without the token in the environment the module of the tool-invocation server raises
  at its start, so that no server exists; the interactive server starts with an empty key
  and its warning, and each of its five operations returns the answer
  \<open>FINNHUB_API_KEY not configured\<close> and issues no request.
\<close>

theorem missing_token:
  assumes "getenv ''FINNHUB_API_KEY'' = None"
  shows "mcp_module_init getenv
           = Inl (ValueError ''FINNHUB_API_KEY environment variable is required'')
       \<and> app_API_KEY (app_module_init getenv) = []
       \<and> app_warning (app_module_init getenv)
       \<and> app_get_press_releases (app_API_KEY (app_module_init getenv)) ymd clock session_get
            symbol from_date to_date
           = ([], Dumps (JObj [(''error'', JStr ''FINNHUB_API_KEY not configured'')]))
       \<and> app_get_insider_transactions (app_API_KEY (app_module_init getenv)) ymd clock
            session_get symbol from_date to_date
           = ([], Dumps (JObj [(''error'', JStr ''FINNHUB_API_KEY not configured'')]))
       \<and> app_get_basic_financials (app_API_KEY (app_module_init getenv)) session_get symbol
            metric_type
           = ([], Dumps (JObj [(''error'', JStr ''FINNHUB_API_KEY not configured'')]))
       \<and> app_get_company_profile (app_API_KEY (app_module_init getenv)) session_get symbol
           = ([], Dumps (JObj [(''error'', JStr ''FINNHUB_API_KEY not configured'')]))
       \<and> app_get_earnings_surprises (app_API_KEY (app_module_init getenv)) session_get symbol
            limit
           = ([], Dumps (JObj [(''error'', JStr ''FINNHUB_API_KEY not configured'')]))"
  using assms
  by (simp add: mcp_module_init_def app_module_init_def app_ops error_answer_def)

theorem missing_token_witness:
  "(\<lambda>k. if k = ''HOME'' then Some ''/root'' else None) ''FINNHUB_API_KEY'' = None
   \<and> mcp_module_init (\<lambda>k. if k = ''HOME'' then Some ''/root'' else None)
       = Inl (ValueError ''FINNHUB_API_KEY environment variable is required'')
   \<and> app_get_company_profile
        (app_API_KEY (app_module_init (\<lambda>k. if k = ''HOME'' then Some ''/root'' else None)))
        (\<lambda>r. Inr (JObj [(''name'', JStr ''Apple Inc'')])) ''AAPL''
       = ([], Dumps (JObj [(''error'', JStr ''FINNHUB_API_KEY not configured'')]))"
  using missing_token [where getenv = "\<lambda>k. if k = ''HOME'' then Some ''/root'' else None"
      and session_get = "\<lambda>r. Inr (JObj [(''name'', JStr ''Apple Inc'')])"
      and symbol = "''AAPL''"]
  by (simp add: app_module_init_def)

text \<open>
  C8, as stated, fails: a request of the tool-invocation server carries no timeout.
\<close>

theorem mcp_request_without_timeout:
  "map timeout (fst (mcp_get_press_releases (\<lambda>d. ''2024-05-01'')
       (\<lparr>day_ordinal = 739007, microsecond_of_day = 0\<rparr>,
        \<lparr>day_ordinal = 739007, microsecond_of_day = 1\<rparr>)
       (\<lambda>r. Inr (JObj [])) [(''symbol'', JStr ''AAPL'')]))
   = [None]"
  by (simp add: mcp_ops Let_def mcp_symbol_def py_getitem_def py_upper_def)

text \<open>
  C8, amended. Each operation of the interactive server issues one request, with the
  timeout 10, unless it stops at the missing key or the empty symbol; each operation of
  the tool-invocation server issues one request, with no timeout, unless reading the
  symbol raises.
\<close>

theorem request_timeouts:
  "map timeout (fst (app_get_press_releases API_KEY ymd clock session_get symbol from_date
       to_date))
     = (if API_KEY = [] \<or> strip (upper symbol) = [] then [] else [Some 10])
   \<and> map timeout (fst (app_get_insider_transactions API_KEY ymd clock session_get symbol
       from_date to_date))
     = (if API_KEY = [] \<or> strip (upper symbol) = [] then [] else [Some 10])
   \<and> map timeout (fst (app_get_basic_financials API_KEY session_get symbol metric_type))
     = (if API_KEY = [] \<or> strip (upper symbol) = [] then [] else [Some 10])
   \<and> map timeout (fst (app_get_company_profile API_KEY session_get symbol))
     = (if API_KEY = [] \<or> strip (upper symbol) = [] then [] else [Some 10])
   \<and> map timeout (fst (app_get_earnings_surprises API_KEY session_get symbol limit))
     = (if API_KEY = [] \<or> strip (upper symbol) = [] then [] else [Some 10])
   \<and> map timeout (fst (mcp_get_press_releases ymd clock session_get args))
     = (case mcp_symbol args of Inl e \<Rightarrow> [] | Inr s \<Rightarrow> [None])
   \<and> map timeout (fst (mcp_get_insider_transactions ymd clock session_get args))
     = (case mcp_symbol args of Inl e \<Rightarrow> [] | Inr s \<Rightarrow> [None])
   \<and> map timeout (fst (mcp_get_basic_financials session_get args))
     = (case mcp_symbol args of Inl e \<Rightarrow> [] | Inr s \<Rightarrow> [None])
   \<and> map timeout (fst (mcp_get_company_profile session_get args))
     = (case mcp_symbol args of Inl e \<Rightarrow> [] | Inr s \<Rightarrow> [None])
   \<and> map timeout (fst (mcp_get_earnings_surprises session_get args))
     = (case mcp_symbol args of Inl e \<Rightarrow> [] | Inr s \<Rightarrow> [None])"
  by (simp add: app_ops mcp_ops Let_def split: sum.split)

text \<open>
  C1, as stated, fails: in the tool-invocation server the exception of a request that
  timed out leaves \<open>get_press_releases\<close>.
\<close>

theorem mcp_exception_escapes:
  "snd (mcp_get_press_releases (\<lambda>d. ''2024-05-01'')
       (\<lparr>day_ordinal = 739007, microsecond_of_day = 0\<rparr>,
        \<lparr>day_ordinal = 739007, microsecond_of_day = 1\<rparr>)
       (\<lambda>r. Inl (Timeout ''Read timed out.'')) [(''symbol'', JStr ''AAPL'')])
   = Inl (Timeout ''Read timed out.'')"
  by (simp add: mcp_ops Let_def mcp_symbol_def py_getitem_def py_upper_def)

text \<open>
  C1, amended. In the interactive server, once the key is set and the symbol is not empty,
  an exception of the request (connection, status, decoding) or of the reshaping of the
  payload never leaves an operation: the answer is the object whose only field
  \<open>error\<close> holds the text of the exception. In the tool-invocation server no
  operation catches anything, and the exception of the request is the outcome of the call.
\<close>

theorem errors_caught_in_app:
  assumes "API_KEY \<noteq> []" and "strip (upper symbol) \<noteq> []"
    and "map_of args ''symbol'' = Some (JStr symbol)"
  shows "snd (app_get_press_releases API_KEY ymd clock (\<lambda>r. Inl e) symbol from_date to_date)
           = Dumps (JObj [(''error'', JStr (message e))])
       \<and> snd (app_get_insider_transactions API_KEY ymd clock (\<lambda>r. Inl e) symbol from_date
            to_date)
           = Dumps (JObj [(''error'', JStr (message e))])
       \<and> snd (app_get_basic_financials API_KEY (\<lambda>r. Inl e) symbol metric_type)
           = Dumps (JObj [(''error'', JStr (message e))])
       \<and> snd (app_get_company_profile API_KEY (\<lambda>r. Inl e) symbol)
           = Dumps (JObj [(''error'', JStr (message e))])
       \<and> snd (app_get_earnings_surprises API_KEY (\<lambda>r. Inl e) symbol limit)
           = Dumps (JObj [(''error'', JStr (message e))])
       \<and> (app_press_releases_body (strip (upper symbol))
             (fst (app_default_dates 30 ymd clock from_date to_date))
             (snd (app_default_dates 30 ymd clock from_date to_date)) data = Inl e1
           \<longrightarrow> snd (app_get_press_releases API_KEY ymd clock (\<lambda>r. Inr data) symbol from_date
                  to_date)
               = Dumps (JObj [(''error'', JStr (message e1))]))
       \<and> (app_insider_transactions_body (strip (upper symbol))
             (fst (app_default_dates 90 ymd clock from_date to_date))
             (snd (app_default_dates 90 ymd clock from_date to_date)) data = Inl e2
           \<longrightarrow> snd (app_get_insider_transactions API_KEY ymd clock (\<lambda>r. Inr data) symbol
                  from_date to_date)
               = Dumps (JObj [(''error'', JStr (message e2))]))
       \<and> (app_basic_financials_body (strip (upper symbol)) metric_type data = Inl e3
           \<longrightarrow> snd (app_get_basic_financials API_KEY (\<lambda>r. Inr data) symbol metric_type)
               = Dumps (JObj [(''error'', JStr (message e3))]))
       \<and> snd (mcp_get_press_releases ymd clock (\<lambda>r. Inl e) args) = Inl e
       \<and> snd (mcp_get_insider_transactions ymd clock (\<lambda>r. Inl e) args) = Inl e
       \<and> snd (mcp_get_basic_financials (\<lambda>r. Inl e) args) = Inl e
       \<and> snd (mcp_get_company_profile (\<lambda>r. Inl e) args) = Inl e
       \<and> snd (mcp_get_earnings_surprises (\<lambda>r. Inl e) args) = Inl e"
  using assms
  by (simp add: app_ops mcp_ops Let_def catch_def error_answer_def)

theorem errors_caught_in_app_witness:
  "''k'' \<noteq> [] \<and> strip (upper ''aapl'') \<noteq> []
   \<and> map_of [(''symbol'', JStr ''aapl'')] ''symbol'' = Some (JStr ''aapl'')
   \<and> snd (app_get_press_releases ''k'' (\<lambda>d. ''2024-05-01'')
        (\<lparr>day_ordinal = 739007, microsecond_of_day = 0\<rparr>,
         \<lparr>day_ordinal = 739007, microsecond_of_day = 1\<rparr>)
        (\<lambda>r. Inl (HTTPError ''404 Client Error'')) ''aapl'' [] [])
      = Dumps (JObj [(''error'', JStr ''404 Client Error'')])
   \<and> app_basic_financials_body (strip (upper ''aapl'')) ''price''
        (JObj [(''metric'', JArr [JInt 1])])
      = Inl (AttributeError
          [CHR 0x27, CHR ''l'', CHR ''i'', CHR ''s'', CHR ''t'', CHR 0x27, CHR '' '',
           CHR ''o'', CHR ''b'', CHR ''j'', CHR ''e'', CHR ''c'', CHR ''t'', CHR '' '',
           CHR ''h'', CHR ''a'', CHR ''s'', CHR '' '', CHR ''n'', CHR ''o'', CHR '' '',
           CHR ''a'', CHR ''t'', CHR ''t'', CHR ''r'', CHR ''i'', CHR ''b'', CHR ''u'',
           CHR ''t'', CHR ''e'', CHR '' '', CHR 0x27, CHR ''i'', CHR ''t'', CHR ''e'',
           CHR ''m'', CHR ''s'', CHR 0x27])
   \<and> snd (app_get_basic_financials ''k'' (\<lambda>r. Inr (JObj [(''metric'', JArr [JInt 1])]))
        ''aapl'' ''price'')
      = Dumps (JObj [(''error'', JStr
          [CHR 0x27, CHR ''l'', CHR ''i'', CHR ''s'', CHR ''t'', CHR 0x27, CHR '' '',
           CHR ''o'', CHR ''b'', CHR ''j'', CHR ''e'', CHR ''c'', CHR ''t'', CHR '' '',
           CHR ''h'', CHR ''a'', CHR ''s'', CHR '' '', CHR ''n'', CHR ''o'', CHR '' '',
           CHR ''a'', CHR ''t'', CHR ''t'', CHR ''r'', CHR ''i'', CHR ''b'', CHR ''u'',
           CHR ''t'', CHR ''e'', CHR '' '', CHR 0x27, CHR ''i'', CHR ''t'', CHR ''e'',
           CHR ''m'', CHR ''s'', CHR 0x27])])"
  using errors_caught_in_app [where API_KEY = "''k''" and symbol = "''aapl''"
      and args = "[(''symbol'', JStr ''aapl'')]" and ymd = "\<lambda>d. ''2024-05-01''"
      and clock = "(\<lparr>day_ordinal = 739007, microsecond_of_day = 0\<rparr>,
         \<lparr>day_ordinal = 739007, microsecond_of_day = 1\<rparr>)"
      and e = "HTTPError ''404 Client Error''" and from_date = "[]" and to_date = "[]"
      and metric_type = "''price''" and data = "JObj [(''metric'', JArr [JInt 1])]"
      and ?e3.0 = "AttributeError
          [CHR 0x27, CHR ''l'', CHR ''i'', CHR ''s'', CHR ''t'', CHR 0x27, CHR '' '',
           CHR ''o'', CHR ''b'', CHR ''j'', CHR ''e'', CHR ''c'', CHR ''t'', CHR '' '',
           CHR ''h'', CHR ''a'', CHR ''s'', CHR '' '', CHR ''n'', CHR ''o'', CHR '' '',
           CHR ''a'', CHR ''t'', CHR ''t'', CHR ''r'', CHR ''i'', CHR ''b'', CHR ''u'',
           CHR ''t'', CHR ''e'', CHR '' '', CHR 0x27, CHR ''i'', CHR ''t'', CHR ''e'',
           CHR ''m'', CHR ''s'', CHR 0x27]"]
  by (simp add: text_evals app_basic_financials_body_def
      dict_get_def py_getitem_def filter_metrics_def keep_keys_def py_items_def
      no_attribute_def quoted_def)

text \<open>
  C4. A press-release payload whose list \<open>majorDevelopment\<close> is not empty and whose
  first ten entries are the objects \<open>es\<close> gives an answer whose \<open>press_releases\<close> are
  exactly these entries, in the provider's order, each reduced to its date (the entry's
  \<open>datetime\<close>), headline, summary and url: ten of them when the list is longer than ten,
  all of them otherwise. An insider-transaction payload gives in the same way the first
  twenty entries of its list \<open>data\<close>, each reduced to its seven fields. Both servers.
\<close>

theorem lists_truncated:
  assumes "API_KEY \<noteq> []" and "strip (upper symbol) \<noteq> []"
    and "map_of args ''symbol'' = Some (JStr symbol)"
    and "map_of d ''majorDevelopment'' = Some (JArr xs)" and "xs \<noteq> []"
    and "take 10 xs = map JObj es"
    and "map_of d' ''data'' = Some (JArr ys)" and "ys \<noteq> []"
    and "take 20 ys = map JObj fs"
  shows "answer_field (snd (app_get_press_releases API_KEY ymd clock (\<lambda>r. Inr (JObj d))
             symbol from_date to_date)) ''press_releases''
           = Some (JArr (map 
             (\<lambda>e. JObj [(''date'', dict_get e ''datetime'' (JStr [])),
                 (''headline'', dict_get e ''headline'' (JStr [])),
                 (''summary'', dict_get e ''summary'' (JStr [])),
                 (''url'', dict_get e ''url'' (JStr []))]) es))
       \<and> length es = min (length xs) 10
       \<and> answer_field (snd (app_get_insider_transactions API_KEY ymd clock
             (\<lambda>r. Inr (JObj d')) symbol from_date to_date)) ''insider_transactions''
           = Some (JArr (map 
             (\<lambda>e. JObj [(''date'', dict_get e ''transactionDate'' (JStr [])),
                 (''name'', dict_get e ''name'' (JStr [])),
                 (''share'', dict_get e ''share'' (JInt 0)),
                 (''change'', dict_get e ''change'' (JInt 0)),
                 (''filingDate'', dict_get e ''filingDate'' (JStr [])),
                 (''transactionCode'', dict_get e ''transactionCode'' (JStr [])),
                 (''transactionPrice'', dict_get e ''transactionPrice'' (JInt 0))]) fs))
       \<and> length fs = min (length ys) 20
       \<and> (\<exists>dr. snd (mcp_get_press_releases ymd clock (\<lambda>r. Inr (JObj d)) args)
             = Inr [TextContent ''text'' (Dumps (JObj [(''symbol'', JStr (upper symbol)),
                 (''date_range'', JStr dr),
                 (''press_releases'', JArr (map 
             (\<lambda>e. JObj [(''date'', dict_get e ''datetime'' (JStr [])),
                 (''headline'', dict_get e ''headline'' (JStr [])),
                 (''summary'', dict_get e ''summary'' (JStr [])),
                 (''url'', dict_get e ''url'' (JStr []))]) es))]))])
       \<and> (\<exists>dr. snd (mcp_get_insider_transactions ymd clock (\<lambda>r. Inr (JObj d')) args)
             = Inr [TextContent ''text'' (Dumps (JObj [(''symbol'', JStr (upper symbol)),
                 (''date_range'', JStr dr),
                 (''insider_transactions'', JArr (map 
             (\<lambda>e. JObj [(''date'', dict_get e ''transactionDate'' (JStr [])),
                 (''name'', dict_get e ''name'' (JStr [])),
                 (''share'', dict_get e ''share'' (JInt 0)),
                 (''change'', dict_get e ''change'' (JInt 0)),
                 (''filingDate'', dict_get e ''filingDate'' (JStr [])),
                 (''transactionCode'', dict_get e ''transactionCode'' (JStr [])),
                 (''transactionPrice'', dict_get e ''transactionPrice'' (JInt 0))]) fs))]))])"
proof -
  have rs: "traverse press_release_entry (take 10 xs) = Inr (map 
             (\<lambda>e. JObj [(''date'', dict_get e ''datetime'' (JStr [])),
                 (''headline'', dict_get e ''headline'' (JStr [])),
                 (''summary'', dict_get e ''summary'' (JStr [])),
                 (''url'', dict_get e ''url'' (JStr []))]) es)"
    unfolding assms(6) by (induction es) (simp_all add: press_release_entry_obj)
  have ts: "traverse insider_transaction_entry (take 20 ys) = Inr (map 
             (\<lambda>e. JObj [(''date'', dict_get e ''transactionDate'' (JStr [])),
                 (''name'', dict_get e ''name'' (JStr [])),
                 (''share'', dict_get e ''share'' (JInt 0)),
                 (''change'', dict_get e ''change'' (JInt 0)),
                 (''filingDate'', dict_get e ''filingDate'' (JStr [])),
                 (''transactionCode'', dict_get e ''transactionCode'' (JStr [])),
                 (''transactionPrice'', dict_get e ''transactionPrice'' (JInt 0))]) fs)"
    unfolding assms(9) by (induction fs) (simp_all add: insider_transaction_entry_obj)
  have l1: "length es = min (length xs) 10"
    using arg_cong [OF assms(6), of length] by simp
  have l2: "length fs = min (length ys) 20"
    using arg_cong [OF assms(9), of length] by simp
  have a1: "answer_field (snd (app_get_press_releases API_KEY ymd clock (\<lambda>r. Inr (JObj d))
             symbol from_date to_date)) ''press_releases''
           = Some (JArr (map 
             (\<lambda>e. JObj [(''date'', dict_get e ''datetime'' (JStr [])),
                 (''headline'', dict_get e ''headline'' (JStr [])),
                 (''summary'', dict_get e ''summary'' (JStr [])),
                 (''url'', dict_get e ''url'' (JStr []))]) es))"
    by (simp add: app_press_releases_found [OF assms(1,2,4,5) rs] answer_field_def)
  have a2: "answer_field (snd (app_get_insider_transactions API_KEY ymd clock
             (\<lambda>r. Inr (JObj d')) symbol from_date to_date)) ''insider_transactions''
           = Some (JArr (map 
             (\<lambda>e. JObj [(''date'', dict_get e ''transactionDate'' (JStr [])),
                 (''name'', dict_get e ''name'' (JStr [])),
                 (''share'', dict_get e ''share'' (JInt 0)),
                 (''change'', dict_get e ''change'' (JInt 0)),
                 (''filingDate'', dict_get e ''filingDate'' (JStr [])),
                 (''transactionCode'', dict_get e ''transactionCode'' (JStr [])),
                 (''transactionPrice'', dict_get e ''transactionPrice'' (JInt 0))]) fs))"
    by (simp add: app_insider_transactions_found [OF assms(1,2,7,8) ts] answer_field_def)
  note m1 = mcp_press_releases_found [OF assms(3,4,5) rs, of ymd clock]
  note m2 = mcp_insider_transactions_found [OF assms(3,7,8) ts, of ymd clock]
  show ?thesis
    by (intro conjI a1 l1 a2 l2 m1 m2)
qed

theorem lists_truncated_witness:
  "''k'' \<noteq> [] \<and> strip (upper ''aapl'') \<noteq> []
   \<and> map_of [(''symbol'', JStr ''aapl'')] ''symbol'' = Some (JStr ''aapl'')
   \<and> length (map (\<lambda>c. JObj [(''headline'', JStr [c])]) ''abcdefghijk'') = 11
   \<and> take 10 (map (\<lambda>c. JObj [(''headline'', JStr [c])]) ''abcdefghijk'')
       = map JObj (map (\<lambda>c. [(''headline'', JStr [c])]) ''abcdefghij'')
   \<and> length (map (\<lambda>c. JObj [(''name'', JStr [c]), (''share'', JInt 5)])
         ''abcdefghijklmnopqrstu'') = 21
   \<and> take 20 (map (\<lambda>c. JObj [(''name'', JStr [c]), (''share'', JInt 5)])
         ''abcdefghijklmnopqrstu'')
       = map JObj (map (\<lambda>c. [(''name'', JStr [c]), (''share'', JInt 5)])
           ''abcdefghijklmnopqrst'')
   \<and> answer_field (snd (app_get_press_releases ''k'' (\<lambda>d. ''2024-05-01'')
        (\<lparr>day_ordinal = 739007, microsecond_of_day = 0\<rparr>,
         \<lparr>day_ordinal = 739007, microsecond_of_day = 1\<rparr>)
        (\<lambda>r. Inr (JObj [(''majorDevelopment'',
                JArr (map (\<lambda>c. JObj [(''headline'', JStr [c])]) ''abcdefghijk''))]))
        ''aapl'' [] [])) ''press_releases''
      = Some (JArr (map (\<lambda>c. JObj [(''date'', JStr []), (''headline'', JStr [c]),
                (''summary'', JStr []), (''url'', JStr [])]) ''abcdefghij''))
   \<and> answer_field (snd (app_get_insider_transactions ''k'' (\<lambda>d. ''2024-05-01'')
        (\<lparr>day_ordinal = 739007, microsecond_of_day = 0\<rparr>,
         \<lparr>day_ordinal = 739007, microsecond_of_day = 1\<rparr>)
        (\<lambda>r. Inr (JObj [(''data'',
                JArr (map (\<lambda>c. JObj [(''name'', JStr [c]), (''share'', JInt 5)])
                  ''abcdefghijklmnopqrstu''))]))
        ''aapl'' [] [])) ''insider_transactions''
      = Some (JArr (map (\<lambda>c. JObj [(''date'', JStr []), (''name'', JStr [c]),
                (''share'', JInt 5), (''change'', JInt 0), (''filingDate'', JStr []),
                (''transactionCode'', JStr []), (''transactionPrice'', JInt 0)])
              ''abcdefghijklmnopqrst''))"
  using lists_truncated [where API_KEY = "''k''" and symbol = "''aapl''"
      and args = "[(''symbol'', JStr ''aapl'')]"
      and d = "[(''majorDevelopment'',
                JArr (map (\<lambda>c. JObj [(''headline'', JStr [c])]) ''abcdefghijk''))]"
      and xs = "map (\<lambda>c. JObj [(''headline'', JStr [c])]) ''abcdefghijk''"
      and es = "map (\<lambda>c. [(''headline'', JStr [c])]) ''abcdefghij''"
      and d' = "[(''data'',
                JArr (map (\<lambda>c. JObj [(''name'', JStr [c]), (''share'', JInt 5)])
                  ''abcdefghijklmnopqrstu''))]"
      and ys = "map (\<lambda>c. JObj [(''name'', JStr [c]), (''share'', JInt 5)])
                  ''abcdefghijklmnopqrstu''"
      and fs = "map (\<lambda>c. [(''name'', JStr [c]), (''share'', JInt 5)])
                  ''abcdefghijklmnopqrst''"
      and ymd = "\<lambda>d. ''2024-05-01''"
      and clock = "(\<lparr>day_ordinal = 739007, microsecond_of_day = 0\<rparr>,
         \<lparr>day_ordinal = 739007, microsecond_of_day = 1\<rparr>)"
      and from_date = "[]" and to_date = "[]"]
  by (simp add: text_evals dict_get_def)

text \<open>
  C6. When the field an operation looks at (\<open>majorDevelopment\<close>, \<open>data\<close>,
  \<open>metric\<close>) is missing from the payload object or holds a false value, and when the
  whole payload of the profile or of the earnings is a false value, the answer is the
  message that nothing was found, with the symbol and, for the two dated operations, the
  date range: an object with \<open>symbol\<close> and \<open>message\<close> in the interactive server, the
  plain sentence in the tool-invocation server; never an error and never an empty list.
\<close>

theorem no_results_message:
  assumes "API_KEY \<noteq> []" and "strip (upper symbol) \<noteq> []"
    and "map_of args ''symbol'' = Some (JStr symbol)"
    and "\<not> truthy (dict_get d ''majorDevelopment'' JNull)"
    and "\<not> truthy (dict_get d ''data'' JNull)"
    and "\<not> truthy (dict_get d ''metric'' JNull)"
    and "\<not> truthy p"
  shows "snd (app_get_press_releases API_KEY ymd clock (\<lambda>r. Inr (JObj d)) symbol from_date
           to_date)
         = Dumps (JObj [(''symbol'', JStr (strip (upper symbol))),
             (''message'', JStr (''No press releases found for '' @ strip (upper symbol)
                @ '' between '' @ fst (app_default_dates 30 ymd clock from_date to_date)
                @ '' and '' @ snd (app_default_dates 30 ymd clock from_date to_date)))])
       \<and> snd (app_get_insider_transactions API_KEY ymd clock (\<lambda>r. Inr (JObj d)) symbol
           from_date to_date)
         = Dumps (JObj [(''symbol'', JStr (strip (upper symbol))),
             (''message'', JStr (''No insider transactions found for ''
                @ strip (upper symbol)
                @ '' between '' @ fst (app_default_dates 90 ymd clock from_date to_date)
                @ '' and '' @ snd (app_default_dates 90 ymd clock from_date to_date)))])
       \<and> snd (app_get_basic_financials API_KEY (\<lambda>r. Inr (JObj d)) symbol metric_type)
         = Dumps (JObj [(''symbol'', JStr (strip (upper symbol))),
             (''message'', JStr (''No financial metrics found for ''
                @ strip (upper symbol)))])
       \<and> snd (app_get_company_profile API_KEY (\<lambda>r. Inr p) symbol)
         = Dumps (JObj [(''symbol'', JStr (strip (upper symbol))),
             (''message'', JStr (''No company profile found for ''
                @ strip (upper symbol)))])
       \<and> snd (app_get_earnings_surprises API_KEY (\<lambda>r. Inr p) symbol limit)
         = Dumps (JObj [(''symbol'', JStr (strip (upper symbol))),
             (''message'', JStr (''No earnings data found for ''
                @ strip (upper symbol)))])
       \<and> snd (mcp_get_press_releases ymd clock (\<lambda>r. Inr (JObj d)) args)
         = Inr [TextContent ''text'' (Plain (''No press releases found for '' @ upper symbol
             @ '' between ''
             @ py_str (dict_get args ''from_date''
                 (JStr (strftime ymd (minus_days (snd clock) 30))))
             @ '' and ''
             @ py_str (dict_get args ''to_date'' (JStr (strftime ymd (fst clock))))))]
       \<and> snd (mcp_get_insider_transactions ymd clock (\<lambda>r. Inr (JObj d)) args)
         = Inr [TextContent ''text'' (Plain (''No insider transactions found for ''
             @ upper symbol @ '' between ''
             @ py_str (dict_get args ''from_date''
                 (JStr (strftime ymd (minus_days (snd clock) 90))))
             @ '' and ''
             @ py_str (dict_get args ''to_date'' (JStr (strftime ymd (fst clock))))))]
       \<and> snd (mcp_get_basic_financials (\<lambda>r. Inr (JObj d)) args)
         = Inr [TextContent ''text''
             (Plain (''No financial metrics found for '' @ upper symbol))]
       \<and> snd (mcp_get_company_profile (\<lambda>r. Inr p) args)
         = Inr [TextContent ''text''
             (Plain (''No company profile found for '' @ upper symbol))]
       \<and> snd (mcp_get_earnings_surprises (\<lambda>r. Inr p) args)
         = Inr [TextContent ''text'' (Plain (''No earnings data found for '' @ upper symbol))]"
  by (simp add: app_no_results [OF assms(1,2)] mcp_no_results [OF assms(3)] assms(4-7))

theorem no_results_message_witness:
  "''k'' \<noteq> [] \<and> strip (upper ''aapl'') \<noteq> []
   \<and> map_of [(''symbol'', JStr ''aapl''), (''from_date'', JStr ''2024-01-01''),
              (''to_date'', JStr ''2024-02-01'')] ''symbol'' = Some (JStr ''aapl'')
   \<and> \<not> truthy (dict_get [(''majorDevelopment'', JArr []), (''symbol'', JStr ''AAPL'')]
          ''majorDevelopment'' JNull)
   \<and> \<not> truthy (dict_get [(''majorDevelopment'', JArr []), (''symbol'', JStr ''AAPL'')]
          ''data'' JNull)
   \<and> \<not> truthy (dict_get [(''majorDevelopment'', JArr []), (''symbol'', JStr ''AAPL'')]
          ''metric'' JNull)
   \<and> \<not> truthy (JObj [])
   \<and> snd (app_get_press_releases ''k'' (\<lambda>d. ''2024-05-01'')
        (\<lparr>day_ordinal = 739007, microsecond_of_day = 0\<rparr>,
         \<lparr>day_ordinal = 739007, microsecond_of_day = 1\<rparr>)
        (\<lambda>r. Inr (JObj [(''majorDevelopment'', JArr []), (''symbol'', JStr ''AAPL'')]))
        ''aapl'' ''2024-01-01'' ''2024-02-01'')
      = Dumps (JObj [(''symbol'', JStr ''AAPL''),
          (''message'',
           JStr ''No press releases found for AAPL between 2024-01-01 and 2024-02-01'')])
   \<and> snd (mcp_get_press_releases (\<lambda>d. ''2024-05-01'')
        (\<lparr>day_ordinal = 739007, microsecond_of_day = 0\<rparr>,
         \<lparr>day_ordinal = 739007, microsecond_of_day = 1\<rparr>)
        (\<lambda>r. Inr (JObj [(''majorDevelopment'', JArr []), (''symbol'', JStr ''AAPL'')]))
        [(''symbol'', JStr ''aapl''), (''from_date'', JStr ''2024-01-01''),
         (''to_date'', JStr ''2024-02-01'')])
      = Inr [TextContent ''text''
          (Plain ''No press releases found for AAPL between 2024-01-01 and 2024-02-01'')]
   \<and> snd (app_get_company_profile ''k'' (\<lambda>r. Inr (JObj [])) ''aapl'')
      = Dumps (JObj [(''symbol'', JStr ''AAPL''),
          (''message'', JStr ''No company profile found for AAPL'')])"
  using no_results_message [where API_KEY = "''k''" and symbol = "''aapl''"
      and args = "[(''symbol'', JStr ''aapl''), (''from_date'', JStr ''2024-01-01''),
              (''to_date'', JStr ''2024-02-01'')]"
      and d = "[(''majorDevelopment'', JArr []), (''symbol'', JStr ''AAPL'')]"
      and p = "JObj []" and ymd = "\<lambda>d. ''2024-05-01''"
      and clock = "(\<lparr>day_ordinal = 739007, microsecond_of_day = 0\<rparr>,
         \<lparr>day_ordinal = 739007, microsecond_of_day = 1\<rparr>)"
      and from_date = "''2024-01-01''" and to_date = "''2024-02-01''"]
  by (simp add: text_evals dict_get_def
      app_default_dates_def)

text \<open>
  C10, as stated, fails: for a payload whose \<open>metric\<close> is empty the answer is the
  message that nothing was found, and it has no field \<open>series\<close>, whatever \<open>series\<close>
  the payload holds.
\<close>

theorem no_series_without_metrics:
  "answer_field (snd (app_get_basic_financials ''k''
      (\<lambda>r. Inr (JObj [(''metric'', JObj []),
                       (''series'', JObj [(''annual'', JObj [])])]))
      ''AAPL'' ''price'')) ''series'' = None"
  by (simp add: app_get_basic_financials_def Let_def catch_def app_basic_financials_body_def
      text_evals dict_get_def answer_field_def)

text \<open>
  C10, amended. For every payload object whose \<open>metric\<close> is a non-empty object and for
  every category, the field \<open>series\<close> of the answer is the \<open>series\<close> of the payload,
  or the empty object when the payload has none; the category decides the field
  \<open>metrics\<close> only. Both servers.
\<close>

theorem series_passed_through:
  assumes "API_KEY \<noteq> []" and "strip (upper symbol) \<noteq> []"
    and "map_of args ''symbol'' = Some (JStr symbol)"
    and "map_of d ''metric'' = Some (JObj m)" and "m \<noteq> []"
  shows "answer_field (snd (app_get_basic_financials API_KEY (\<lambda>r. Inr (JObj d)) symbol
            metric_type)) ''series''
         = Some (dict_get d ''series'' (JObj []))
       \<and> answer_field (snd (app_get_basic_financials API_KEY (\<lambda>r. Inr (JObj d)) symbol
            metric_type)) ''symbol''
         = Some (JStr (strip (upper symbol)))
       \<and> answer_field (snd (app_get_basic_financials API_KEY (\<lambda>r. Inr (JObj d)) symbol
            metric_type)) ''metric_type''
         = Some (JStr metric_type)
       \<and> (\<exists>filtered. snd (mcp_get_basic_financials (\<lambda>r. Inr (JObj d)) args)
            = Inr [TextContent ''text'' (Dumps (JObj [(''symbol'', JStr (upper symbol)),
                (''metric_type'', dict_get args ''metric'' (JStr ''all'')),
                (''metrics'', filtered),
                (''series'', dict_get d ''series'' (JObj []))]))])"
  by (simp add: app_basic_financials_found [OF assms(1,2,4,5)]
      mcp_basic_financials_found [OF assms(3,4,5)] answer_field_def)

theorem series_passed_through_witness:
  "''k'' \<noteq> [] \<and> strip (upper ''aapl'') \<noteq> []
   \<and> map_of [(''symbol'', JStr ''aapl''), (''metric'', JStr ''price'')] ''symbol''
       = Some (JStr ''aapl'')
   \<and> map_of [(''metric'', JObj [(''beta'', JFloat 1.2)]),
              (''series'', JObj [(''annual'', JObj [])])] ''metric''
       = Some (JObj [(''beta'', JFloat 1.2)])
   \<and> [(''beta'', JFloat 1.2)] \<noteq> []
   \<and> answer_field (snd (app_get_basic_financials ''k''
        (\<lambda>r. Inr (JObj [(''metric'', JObj [(''beta'', JFloat 1.2)]),
              (''series'', JObj [(''annual'', JObj [])])])) ''aapl'' ''valuation''))
        ''series''
      = Some (JObj [(''annual'', JObj [])])"
  using series_passed_through [where API_KEY = "''k''" and symbol = "''aapl''"
      and args = "[(''symbol'', JStr ''aapl''), (''metric'', JStr ''price'')]"
      and d = "[(''metric'', JObj [(''beta'', JFloat 1.2)]),
              (''series'', JObj [(''annual'', JObj [])])]"
      and m = "[(''beta'', JFloat 1.2)]" and metric_type = "''valuation''"]
  by (simp add: text_evals dict_get_def)




text \<open>
  C9. With both dates given, the requests an operation issues and the text it returns do
  not depend on the clock or on the calendar: two calls with the same key, the same
  inputs and the same provider give the same answer, hence the same serialised text.
\<close>

theorem deterministic_with_explicit_dates:
  assumes "from_date \<noteq> []" and "to_date \<noteq> []"
    and "map_of args ''from_date'' = Some f" and "map_of args ''to_date'' = Some t"
  shows "app_get_press_releases API_KEY ymd clock session_get symbol from_date to_date
           = app_get_press_releases API_KEY ymd' clock' session_get symbol from_date to_date
       \<and> app_get_insider_transactions API_KEY ymd clock session_get symbol from_date to_date
           = app_get_insider_transactions API_KEY ymd' clock' session_get symbol from_date
               to_date
       \<and> mcp_get_press_releases ymd clock session_get args
           = mcp_get_press_releases ymd' clock' session_get args
       \<and> mcp_get_insider_transactions ymd clock session_get args
           = mcp_get_insider_transactions ymd' clock' session_get args"
  using assms
  by (simp add: app_get_press_releases_def app_get_insider_transactions_def
      mcp_get_press_releases_def mcp_get_insider_transactions_def app_default_dates_def
      Let_def split: sum.split)

theorem deterministic_with_explicit_dates_witness:
  "''2024-01-01'' \<noteq> [] \<and> ''2024-02-01'' \<noteq> []
   \<and> map_of [(''symbol'', JStr ''aapl''), (''from_date'', JStr ''2024-01-01''),
              (''to_date'', JStr ''2024-02-01'')] ''from_date'' = Some (JStr ''2024-01-01'')
   \<and> map_of [(''symbol'', JStr ''aapl''), (''from_date'', JStr ''2024-01-01''),
              (''to_date'', JStr ''2024-02-01'')] ''to_date'' = Some (JStr ''2024-02-01'')
   \<and> app_get_press_releases ''k'' (\<lambda>d. ''2024-05-01'')
        (\<lparr>day_ordinal = 739007, microsecond_of_day = 0\<rparr>,
         \<lparr>day_ordinal = 739007, microsecond_of_day = 1\<rparr>)
        (\<lambda>r. Inr (JObj [])) ''aapl'' ''2024-01-01'' ''2024-02-01''
     = app_get_press_releases ''k'' (\<lambda>d. ''2024-06-15'')
        (\<lparr>day_ordinal = 739052, microsecond_of_day = 5\<rparr>,
         \<lparr>day_ordinal = 739053, microsecond_of_day = 0\<rparr>)
        (\<lambda>r. Inr (JObj [])) ''aapl'' ''2024-01-01'' ''2024-02-01''
   \<and> mcp_get_press_releases (\<lambda>d. ''2024-05-01'')
        (\<lparr>day_ordinal = 739007, microsecond_of_day = 0\<rparr>,
         \<lparr>day_ordinal = 739007, microsecond_of_day = 1\<rparr>)
        (\<lambda>r. Inr (JObj []))
        [(''symbol'', JStr ''aapl''), (''from_date'', JStr ''2024-01-01''),
              (''to_date'', JStr ''2024-02-01'')]
     = mcp_get_press_releases (\<lambda>d. ''2024-06-15'')
        (\<lparr>day_ordinal = 739052, microsecond_of_day = 5\<rparr>,
         \<lparr>day_ordinal = 739053, microsecond_of_day = 0\<rparr>)
        (\<lambda>r. Inr (JObj []))
        [(''symbol'', JStr ''aapl''), (''from_date'', JStr ''2024-01-01''),
              (''to_date'', JStr ''2024-02-01'')]"
  using deterministic_with_explicit_dates [where from_date = "''2024-01-01''"
      and to_date = "''2024-02-01''"
      and args = "[(''symbol'', JStr ''aapl''), (''from_date'', JStr ''2024-01-01''),
              (''to_date'', JStr ''2024-02-01'')]"
      and f = "JStr ''2024-01-01''" and t = "JStr ''2024-02-01''"
      and API_KEY = "''k''" and symbol = "''aapl''"
      and ymd = "\<lambda>d. ''2024-05-01''" and ymd' = "\<lambda>d. ''2024-06-15''"
      and clock = "(\<lparr>day_ordinal = 739007, microsecond_of_day = 0\<rparr>,
         \<lparr>day_ordinal = 739007, microsecond_of_day = 1\<rparr>)"
      and clock' = "(\<lparr>day_ordinal = 739052, microsecond_of_day = 5\<rparr>,
         \<lparr>day_ordinal = 739053, microsecond_of_day = 0\<rparr>)"
      and session_get = "\<lambda>r. Inr (JObj [])"]
  by simp




end
